theory Spec2Isabelle
  imports Main
begin

section \<open>Python values, exceptions and the host's settings\<close>

text \<open>
  The plugin is one Python module, \<^verbatim>\<open>octoprint_multicam/__init__.py\<close>. It can only be
  imported by Python 3: line 140 is an f-string, and the module imports
  \<^verbatim>\<open>octoprint.schema.webcam\<close>. The model therefore follows Python 3, where ordering
  \<^verbatim>\<open>None\<close> against an integer raises \<^verbatim>\<open>TypeError\<close>.

  Settings values are the scalars the host's YAML store holds: \<^verbatim>\<open>None\<close>, booleans,
  integers and strings. A profile is a Python \<^verbatim>\<open>dict\<close> from field names to such values;
  it is modelled as a map, so that a missing key and a key bound to \<^verbatim>\<open>None\<close> stay
  different.
\<close>

datatype pyval = PNone | PBool bool | PInt int | PStr string

datatype error =
    TypeError
  | AttributeError
  | StopIteration
  | KeyError
  | ValidationError
  | WebcamNotAbleToTakeSnapshotException
  | HTTPError

type_synonym profile = "string \<Rightarrow> pyval option"

text \<open>Python's truth value of an object, and \<^verbatim>\<open>x or y\<close>.\<close>

fun truthy :: "pyval \<Rightarrow> bool" where
  "truthy PNone = False"
| "truthy (PBool b) = b"
| "truthy (PInt i) = (i \<noteq> 0)"
| "truthy (PStr s) = (s \<noteq> [])"

definition py_or :: "pyval \<Rightarrow> pyval \<Rightarrow> pyval" where
  "py_or x y = (if truthy x then x else y)"

text \<open>\<^verbatim>\<open>d.get(key, None)\<close> on a dict.\<close>

definition dict_get :: "profile \<Rightarrow> string \<Rightarrow> pyval" where
  "dict_get d k = (case d k of None \<Rightarrow> PNone | Some v \<Rightarrow> v)"

text \<open>
  \<^verbatim>\<open>current < k\<close> where \<^verbatim>\<open>current\<close> is an integer or \<^verbatim>\<open>None\<close> and \<^verbatim>\<open>k\<close> an
  integer literal: Python 3 raises \<^verbatim>\<open>TypeError\<close> for \<^verbatim>\<open>None\<close>.
\<close>

definition py_lt :: "int option \<Rightarrow> int \<Rightarrow> error + bool" where
  "py_lt current k = (case current of None \<Rightarrow> Inl TypeError | Some c \<Rightarrow> Inr (c < k))"

text \<open>
  The host's legacy single-camera settings, read through
  \<^verbatim>\<open>octoprint.settings.settings().get(["webcam", key])\<close>: one field per key.
\<close>

record legacy_webcam =
  webcam_stream :: pyval
  webcam_snapshot :: pyval
  webcam_streamRatio :: pyval
  webcam_flipH :: pyval
  webcam_flipV :: pyval
  webcam_rotate90 :: pyval

text \<open>
  What the plugin reads and writes on the host: the list stored under
  \<^verbatim>\<open>multicam_profiles\<close>, the legacy settings, the messages given to the logger and
  the URLs of the HTTP requests issued so far.
\<close>

record host_state =
  multicam_profiles :: "profile list"
  legacy :: legacy_webcam
  logged :: "string list"
  http_gets :: "pyval list"

section \<open>Settings migration\<close>

definition get_settings_version :: int where
  "get_settings_version = 3"

text \<open>
  \<^verbatim>\<open>get_settings_defaults\<close> returns a dict with the single key
  \<^verbatim>\<open>multicam_profiles\<close>, bound to a list of one profile. The last entry of the profile
  is the string literal \<^verbatim>\<open>'true'\<close>.
\<close>

definition default_profile :: "legacy_webcam \<Rightarrow> profile" where
  "default_profile w =
     [''name'' \<mapsto> PStr ''Default'',
      ''URL'' \<mapsto> webcam_stream w,
      ''snapshot'' \<mapsto> webcam_snapshot w,
      ''streamRatio'' \<mapsto> webcam_streamRatio w,
      ''flipH'' \<mapsto> webcam_flipH w,
      ''flipV'' \<mapsto> webcam_flipV w,
      ''rotate90'' \<mapsto> webcam_rotate90 w,
      ''isButtonEnabled'' \<mapsto> PStr ''true'']"

definition get_settings_defaults :: "legacy_webcam \<Rightarrow> (string \<Rightarrow> profile list option)" where
  "get_settings_defaults w = [''multicam_profiles'' \<mapsto> [default_profile w]]"

text \<open>
  The two loops of the migration. Each assigns into every profile dict of the list, in
  order; the values are read from the legacy settings at each assignment, and nothing in
  the loop changes those.
\<close>

fun migrate_to_2 :: "legacy_webcam \<Rightarrow> profile list \<Rightarrow> profile list" where
  "migrate_to_2 w [] = []"
| "migrate_to_2 w (profile # profiles) =
     profile(''snapshot'' \<mapsto> webcam_snapshot w,
             ''flipH'' \<mapsto> webcam_flipH w,
             ''flipV'' \<mapsto> webcam_flipV w,
             ''rotate90'' \<mapsto> webcam_rotate90 w)
     # migrate_to_2 w profiles"

fun migrate_to_3 :: "legacy_webcam \<Rightarrow> profile list \<Rightarrow> profile list" where
  "migrate_to_3 w [] = []"
| "migrate_to_3 w (profile # profiles) =
     profile(''streamRatio'' \<mapsto> webcam_streamRatio w) # migrate_to_3 w profiles"

text \<open>
  \<^verbatim>\<open>on_settings_migrate(self, target, current=None)\<close>. The result is the exception
  raised, if any, and the host state left behind. \<^verbatim>\<open>target\<close> is not read. The outer
  guard \<^verbatim>\<open>current is None or current < self.get_settings_version()\<close> short-circuits
  on \<^verbatim>\<open>None\<close>; the two inner comparisons \<^verbatim>\<open>current < 2\<close> and \<^verbatim>\<open>current < 3\<close> do
  not test for \<^verbatim>\<open>None\<close>. The first of them is evaluated before any assignment to a
  profile, and the second cannot raise once the first has not.
\<close>

definition outer_guard :: "int option \<Rightarrow> bool" where
  "outer_guard current =
     (case current of None \<Rightarrow> True | Some c \<Rightarrow> c < get_settings_version)"

definition on_settings_migrate ::
  "int \<Rightarrow> int option \<Rightarrow> host_state \<Rightarrow> (error + unit) \<times> host_state" where
  "on_settings_migrate target current s =
     (if outer_guard current then
        (let s1 = s\<lparr>logged := logged s @ [''Settings Migration Needed! Resetting to defaults!'']\<rparr>;
             profiles = multicam_profiles s1
         in case py_lt current 2 of
              Inl e \<Rightarrow> (Inl e, s1)
            | Inr lt2 \<Rightarrow>
                (let profiles2 = (if lt2 then migrate_to_2 (legacy s1) profiles else profiles)
                 in case py_lt current 3 of
                      Inl e \<Rightarrow> (Inl e, s1\<lparr>multicam_profiles := profiles2\<rparr>)
                    | Inr lt3 \<Rightarrow>
                        (let profiles3 =
                               (if lt3 then migrate_to_3 (legacy s1) profiles2 else profiles2)
                         in if get_settings_version = 3
                            then (Inr (), s1\<lparr>multicam_profiles := profiles3\<rparr>)
                            else (case get_settings_defaults (legacy s1) ''multicam_profiles'' of
                                    None \<Rightarrow> (Inl KeyError, s1)
                                  | Some defaults \<Rightarrow>
                                      (Inr (), s1\<lparr>multicam_profiles := defaults\<rparr>)))))
      else (Inr (), s))"

section \<open>Webcam descriptors\<close>

text \<open>
  \<^verbatim>\<open>Webcam\<close> and \<^verbatim>\<open>WebcamCompatibility\<close> are the host's descriptor classes,
  imported from \<^verbatim>\<open>octoprint.schema.webcam\<close>. The records have the fields the plugin
  names in the constructor calls of lines 100 to 124; \<^verbatim>\<open>extras\<close> is a dict. A record
  stands both for the keyword arguments of a constructor call and for the object the
  constructor returns.
\<close>

record WebcamCompatibility =
  stream :: pyval
  streamTimeout :: int
  streamRatio :: pyval
  cacheBuster :: bool
  streamWebrtcIceServers :: "string list"
  snapshot :: pyval
  snapshotTimeout :: int
  snapshotSslValidation :: bool

record Webcam =
  name :: string
  displayName :: pyval
  flipH :: pyval
  flipV :: pyval
  rotate90 :: pyval
  snapshotDisplay :: pyval
  canSnapshot :: bool
  compat :: WebcamCompatibility
  extras :: "string \<Rightarrow> pyval option"

text \<open>
  The constructors themselves belong to the host. They validate their arguments: a call
  may raise, and the object returned may hold coerced values instead of the ones passed.
  What they do is not in this repository, so both are parameters of the model: each maps
  the keyword arguments to the exception raised or to the object built.
\<close>

record host_schema =
  new_WebcamCompatibility :: "WebcamCompatibility \<Rightarrow> error + WebcamCompatibility"
  new_Webcam :: "Webcam \<Rightarrow> error + Webcam"

text \<open>The instance attributes assigned by \<^verbatim>\<open>MultiCamPlugin.__init__\<close>.\<close>

record MultiCamPlugin =
  self_streamTimeout :: int
  self_snapshotTimeout :: int
  self_cacheBuster :: bool
  self_snapshotSslValidation :: bool
  self_webRtcServers :: "string list"

definition init :: MultiCamPlugin where
  "init = \<lparr>self_streamTimeout = 15, self_snapshotTimeout = 15, self_cacheBuster = True,
           self_snapshotSslValidation = True, self_webRtcServers = []\<rparr>"

text \<open>\<^verbatim>\<open>str(x)\<close>, as used by \<^verbatim>\<open>"multicam/%s" % name\<close>.\<close>

fun decimal :: "nat \<Rightarrow> string" where
  "decimal n =
     (if n < 10 then [char_of (48 + n)]
      else decimal (n div 10) @ [char_of (48 + n mod 10)])"

fun py_str :: "pyval \<Rightarrow> string" where
  "py_str PNone = ''None''"
| "py_str (PBool b) = (if b then ''True'' else ''False'')"
| "py_str (PInt i) = (if i < 0 then ''-'' @ decimal (nat (- i)) else decimal (nat i))"
| "py_str (PStr s) = s"

text \<open>
  The objects \<^verbatim>\<open>profile_to_webcam\<close> can be applied to: a profile dict, or a pair
  \<^verbatim>\<open>(index, profile)\<close> as produced by \<^verbatim>\<open>enumerate\<close>. A tuple has no attribute
  \<^verbatim>\<open>get\<close>, so the first statement of the function raises \<^verbatim>\<open>AttributeError\<close> on it.
  On a dict the locals of lines 91 to 98 are computed, then the keyword arguments are
  evaluated in order: \<^verbatim>\<open>WebcamCompatibility(...)\<close> is called before \<^verbatim>\<open>Webcam(...)\<close>,
  and an exception of either constructor is the exception of the function.
\<close>

datatype pyobject = PyDict profile | PyTuple nat profile

fun profile_to_webcam :: "host_schema \<Rightarrow> MultiCamPlugin \<Rightarrow> pyobject \<Rightarrow> error + Webcam" where
  "profile_to_webcam schema self (PyTuple i d) = Inl AttributeError"
| "profile_to_webcam schema self (PyDict profile) =
     (let flipH_v = py_or (dict_get profile ''flipH'') (PBool False);
          flipV_v = py_or (dict_get profile ''flipV'') (PBool False);
          rotate90_v = py_or (dict_get profile ''rotate90'') (PBool False);
          snapshot_v = dict_get profile ''snapshot'';
          stream_v = py_or (dict_get profile ''URL'') (PStr '''');
          streamRatio_v = py_or (dict_get profile ''streamRatio'') (PStr ''4:3'');
          canSnapshot_v = (snapshot_v \<noteq> PStr '''' \<and> snapshot_v \<noteq> PNone);
          name_v = py_or (dict_get profile ''name'') (PStr ''default'')
      in case new_WebcamCompatibility schema
                \<lparr>stream = stream_v,
                 streamTimeout = self_streamTimeout self,
                 streamRatio = streamRatio_v,
                 cacheBuster = self_cacheBuster self,
                 streamWebrtcIceServers = self_webRtcServers self,
                 snapshot = snapshot_v,
                 snapshotTimeout = self_snapshotTimeout self,
                 snapshotSslValidation = self_snapshotSslValidation self\<rparr> of
           Inl e \<Rightarrow> Inl e
         | Inr compat_v \<Rightarrow>
             new_Webcam schema
               \<lparr>name = ''multicam/'' @ py_str name_v,
                displayName = name_v,
                flipH = flipH_v,
                flipV = flipV_v,
                rotate90 = rotate90_v,
                snapshotDisplay = snapshot_v,
                canSnapshot = canSnapshot_v,
                compat = compat_v,
                extras = [''stream'' \<mapsto> stream_v,
                          ''streamTimeout'' \<mapsto> PInt (self_streamTimeout self),
                          ''streamRatio'' \<mapsto> streamRatio_v,
                          ''cacheBuster'' \<mapsto> PBool (self_cacheBuster self)]\<rparr>)"

text \<open>\<^verbatim>\<open>enumerate(xs)\<close>: the pairs \<^verbatim>\<open>(0, x0), (1, x1), ...\<close>.\<close>

definition enumerate_py :: "profile list \<Rightarrow> pyobject list" where
  "enumerate_py xs = map (\<lambda>(i, p). PyTuple i p) (List.enumerate 0 xs)"

text \<open>\<^verbatim>\<open>list(map(f, xs))\<close> for an \<^verbatim>\<open>f\<close> that may raise: the first exception ends it.\<close>

fun list_map :: "('a \<Rightarrow> error + 'b) \<Rightarrow> 'a list \<Rightarrow> error + 'b list" where
  "list_map f [] = Inr []"
| "list_map f (x # xs) =
     (case f x of
        Inl e \<Rightarrow> Inl e
      | Inr y \<Rightarrow> (case list_map f xs of Inl e \<Rightarrow> Inl e | Inr ys \<Rightarrow> Inr (y # ys)))"

text \<open>
  \<^verbatim>\<open>get_webcam_configurations\<close>: the stored list is wrapped in \<^verbatim>\<open>enumerate\<close> (line 88)
  before \<^verbatim>\<open>profile_to_webcam\<close> is mapped over it (line 126).
\<close>

definition get_webcam_configurations ::
  "host_schema \<Rightarrow> MultiCamPlugin \<Rightarrow> host_state \<Rightarrow> error + Webcam list" where
  "get_webcam_configurations schema self s =
     (let profiles = enumerate_py (multicam_profiles s)
      in list_map (profile_to_webcam schema self) profiles)"

section \<open>Snapshot proxy\<close>

text \<open>
  Attribute lookup on the plugin instance succeeds for the names the class body defines,
  for the names \<^verbatim>\<open>__init__\<close> assigns, and for the names the host's mixin classes and
  its plugin loader provide. The last set belongs to the host; it is a parameter,
  \<open>host_attrs\<close>.
\<close>

definition class_attrs :: "string list" where
  "class_attrs =
     [''streamTimeout'', ''snapshotTimeout'', ''cacheBuster'', ''snapshotSslValidation'',
      ''webRtcServers'',
      ''get_assets'', ''on_after_startup'', ''get_settings_version'', ''on_settings_migrate'',
      ''get_settings_defaults'', ''get_sorting_key'', ''get_template_configs'',
      ''get_webcam_configurations'', ''take_webcam_snapshot'', ''get_version'',
      ''get_update_information'']"

definition has_attr :: "string list \<Rightarrow> string \<Rightarrow> bool" where
  "has_attr host_attrs a = (a \<in> set (class_attrs @ host_attrs))"

text \<open>
  What a \<^verbatim>\<open>for\<close> clause can be asked to iterate over here: a bound method object, which
  is not iterable, or a list of descriptors.
\<close>

datatype iterable = BoundMethod string | WebcamList "Webcam list"

fun py_iter :: "iterable \<Rightarrow> error + Webcam list" where
  "py_iter (BoundMethod m) = Inl TypeError"
| "py_iter (WebcamList ws) = Inr ws"

text \<open>
  \<^verbatim>\<open>next(it)\<close> with no default: \<^verbatim>\<open>StopIteration\<close> when the iterator is exhausted.
  The result is a Python reference, which the caller compares with \<^verbatim>\<open>None\<close>; it is
  never \<^verbatim>\<open>None\<close> here, the elements being descriptors.
\<close>

fun py_next :: "'a list \<Rightarrow> error + 'a option" where
  "py_next [] = Inl StopIteration"
| "py_next (x # xs) = Inr (Some x)"

text \<open>
  Reading an attribute of a descriptor. The constructor call in \<^verbatim>\<open>profile_to_webcam\<close>
  names every field; \<^verbatim>\<open>snapshot_url\<close> is not one of them.
\<close>

definition webcam_getattr :: "Webcam \<Rightarrow> string \<Rightarrow> error + pyval" where
  "webcam_getattr w a =
     (if a = ''name'' then Inr (PStr (name w))
      else if a = ''displayName'' then Inr (displayName w)
      else if a = ''flipH'' then Inr (flipH w)
      else if a = ''flipV'' then Inr (flipV w)
      else if a = ''rotate90'' then Inr (rotate90 w)
      else if a = ''snapshotDisplay'' then Inr (snapshotDisplay w)
      else if a = ''canSnapshot'' then Inr (PBool (canSnapshot w))
      else Inl AttributeError)"

text \<open>
  \<^verbatim>\<open>raise WebcamNotAbleToTakeSnapshotException(self._webcam_name)\<close>: the argument is
  evaluated first.
\<close>

definition raise_not_able :: "string list \<Rightarrow> error" where
  "raise_not_able host_attrs =
     (if has_attr host_attrs ''_webcam_name'' then WebcamNotAbleToTakeSnapshotException
      else AttributeError)"

text \<open>
  \<^verbatim>\<open>take_webcam_snapshot(self, name)\<close>. \<open>fetch\<close> stands for the remote end of
  \<^verbatim>\<open>requests.get\<close> followed by \<^verbatim>\<open>raise_for_status\<close>: the chunks of the body, or the
  exception. Line 129 iterates over \<^verbatim>\<open>self.get_webcam_configurations\<close>, the bound
  method itself: the method is not called.
\<close>

definition take_webcam_snapshot ::
  "string list \<Rightarrow> (pyval \<Rightarrow> error + string list) \<Rightarrow> MultiCamPlugin \<Rightarrow> string \<Rightarrow> host_state
     \<Rightarrow> (error + string list) \<times> host_state" where
  "take_webcam_snapshot host_attrs fetch self nm s =
     (case py_iter (BoundMethod ''get_webcam_configurations'') of
        Inl e \<Rightarrow> (Inl e, s)
      | Inr webcams \<Rightarrow>
          (case py_next (filter (\<lambda>webcam. name webcam = nm) webcams) of
             Inl e \<Rightarrow> (Inl e, s)
           | Inr None \<Rightarrow> (Inl (raise_not_able host_attrs), s)
           | Inr (Some webcam) \<Rightarrow>
               (case webcam_getattr webcam ''snapshot_url'' of
                  Inl e \<Rightarrow> (Inl e, s)
                | Inr snapshot_url \<Rightarrow>
                    (let can_snapshot =
                           (snapshot_url \<noteq> PNone \<and> snapshot_url \<noteq> PStr ''http://''
                            \<and> snapshot_url \<noteq> PStr '''')
                     in if can_snapshot then
                          (if has_attr host_attrs ''_capture_mutex'' then
                             (let s1 = s\<lparr>logged := logged s
                                                @ [''Capturing image from '' @ py_str snapshot_url],
                                         http_gets := http_gets s @ [snapshot_url]\<rparr>
                              in (fetch snapshot_url, s1))
                           else (Inl AttributeError, s))
                        else (Inl (raise_not_able host_attrs), s)))))"

section \<open>Plugin registration\<close>

text \<open>
  The module globals \<^verbatim>\<open>__plugin_implementation__\<close>, \<^verbatim>\<open>__plugin_helpers__\<close> and
  \<^verbatim>\<open>__plugin_hooks__\<close>, unset before \<^verbatim>\<open>__plugin_load__\<close> runs. A bound method is
  represented by its name.
\<close>

record module_globals =
  plugin_implementation :: "MultiCamPlugin option"
  plugin_helpers :: "(string \<Rightarrow> string option) option"
  plugin_hooks :: "(string \<Rightarrow> string option) option"

definition unloaded :: module_globals where
  "unloaded = \<lparr>plugin_implementation = None, plugin_helpers = None, plugin_hooks = None\<rparr>"

definition bound_method :: "string list \<Rightarrow> string \<Rightarrow> error + string" where
  "bound_method host_attrs a = (if has_attr host_attrs a then Inr a else Inl AttributeError)"

definition plugin_load :: "string list \<Rightarrow> module_globals \<Rightarrow> (error + unit) \<times> module_globals" where
  "plugin_load host_attrs g =
     (let g1 = g\<lparr>plugin_implementation := Some init\<rparr>
      in case bound_method host_attrs ''get_webcam_profiles'' of
           Inl e \<Rightarrow> (Inl e, g1)
         | Inr helper \<Rightarrow>
             (let g2 = g1\<lparr>plugin_helpers := Some [''get_webcam_profiles'' \<mapsto> helper]\<rparr>
              in case bound_method host_attrs ''get_update_information'' of
                   Inl e \<Rightarrow> (Inl e, g2)
                 | Inr hook \<Rightarrow>
                     (Inr (),
                      g2\<lparr>plugin_hooks :=
                           Some [''octoprint.plugin.softwareupdate.check_config'' \<mapsto> hook]\<rparr>)))"

section \<open>Example inputs\<close>

definition cam1 :: profile where
  "cam1 = [''name'' \<mapsto> PStr ''Cam1'',
           ''URL'' \<mapsto> PStr ''http://x/stream'',
           ''snapshot'' \<mapsto> PStr ''http://x/snap.jpg'']"

definition cam_placeholder :: profile where
  "cam_placeholder = [''name'' \<mapsto> PStr ''Cam1'', ''snapshot'' \<mapsto> PStr ''http://'']"

definition cam_empty_snapshot :: profile where
  "cam_empty_snapshot = [''name'' \<mapsto> PStr ''Cam1'', ''snapshot'' \<mapsto> PStr '''']"

definition legacy0 :: legacy_webcam where
  "legacy0 = \<lparr>webcam_stream = PStr ''http://host/stream'',
              webcam_snapshot = PStr ''http://host/snap'',
              webcam_streamRatio = PStr ''16:9'',
              webcam_flipH = PBool True,
              webcam_flipV = PBool False,
              webcam_rotate90 = PBool False\<rparr>"

definition host_with :: "profile list \<Rightarrow> host_state" where
  "host_with ps = \<lparr>multicam_profiles = ps, legacy = legacy0, logged = [], http_gets = []\<rparr>"

text \<open>Some of the attributes the host injects into a plugin instance, and a remote end
  that answers every request with one chunk.\<close>

definition injected_attrs :: "string list" where
  "injected_attrs = [''_identifier'', ''_plugin_name'', ''_plugin_version'', ''_basefolder'',
                     ''_logger'', ''_settings'']"

definition one_chunk :: "pyval \<Rightarrow> error + string list" where
  "one_chunk url = Inr [''JPEG'']"

section \<open>Properties of the settings migration\<close>

lemma migrate_to_2_length: "length (migrate_to_2 w ps) = length ps"
  by (induction ps) simp_all

lemma migrate_to_3_length: "length (migrate_to_3 w ps) = length ps"
  by (induction ps) simp_all

lemma migrate_to_2_nth:
  "i < length ps \<Longrightarrow>
   migrate_to_2 w ps ! i =
     (ps ! i)(''snapshot'' \<mapsto> webcam_snapshot w, ''flipH'' \<mapsto> webcam_flipH w,
              ''flipV'' \<mapsto> webcam_flipV w, ''rotate90'' \<mapsto> webcam_rotate90 w)"
proof (induction ps arbitrary: i)
  case Nil
  then show ?case by simp
next
  case (Cons p ps)
  then show ?case by (cases i) (simp_all add: fun_eq_iff)
qed

lemma migrate_to_3_nth:
  "i < length ps \<Longrightarrow>
   migrate_to_3 w ps ! i = (ps ! i)(''streamRatio'' \<mapsto> webcam_streamRatio w)"
proof (induction ps arbitrary: i)
  case Nil
  then show ?case by simp
next
  case (Cons p ps)
  then show ?case by (cases i) (simp_all add: fun_eq_iff)
qed

text \<open>The three ways through the routine: \<^verbatim>\<open>None\<close>, a stale version, an up-to-date one.\<close>

lemma on_settings_migrate_None:
  "on_settings_migrate target None s =
     (Inl TypeError,
      s\<lparr>logged := logged s @ [''Settings Migration Needed! Resetting to defaults!'']\<rparr>)"
  by (simp add: on_settings_migrate_def outer_guard_def py_lt_def)

lemma on_settings_migrate_stale:
  "c < 3 \<Longrightarrow>
   on_settings_migrate target (Some c) s =
     (Inr (),
      s\<lparr>logged := logged s @ [''Settings Migration Needed! Resetting to defaults!''],
        multicam_profiles :=
          migrate_to_3 (legacy s)
            (if c < 2 then migrate_to_2 (legacy s) (multicam_profiles s)
             else multicam_profiles s)\<rparr>)"
  by (simp add: on_settings_migrate_def outer_guard_def py_lt_def get_settings_version_def Let_def)

lemma on_settings_migrate_current:
  "3 \<le> c \<Longrightarrow> on_settings_migrate target (Some c) s = (Inr (), s)"
  by (simp add: on_settings_migrate_def outer_guard_def get_settings_version_def)

text \<open>
  From version 1 the routine does what the specification says: all five fields of every
  stored profile are overwritten with the legacy values, every other key is kept, and
  the list keeps its length.
\<close>

lemma migrate_from_1_overwrites:
  "fst (on_settings_migrate target (Some 1) s) = Inr ()
   \<and> length (multicam_profiles (snd (on_settings_migrate target (Some 1) s)))
       = length (multicam_profiles s)
   \<and> (\<forall>i < length (multicam_profiles s).
         multicam_profiles (snd (on_settings_migrate target (Some 1) s)) ! i =
           (multicam_profiles s ! i)
             (''snapshot'' \<mapsto> webcam_snapshot (legacy s),
              ''flipH'' \<mapsto> webcam_flipH (legacy s),
              ''flipV'' \<mapsto> webcam_flipV (legacy s),
              ''rotate90'' \<mapsto> webcam_rotate90 (legacy s),
              ''streamRatio'' \<mapsto> webcam_streamRatio (legacy s)))"
  by (simp add: on_settings_migrate_stale migrate_to_3_length migrate_to_2_length
      migrate_to_3_nth migrate_to_2_nth)

text \<open>
  Claim C1, at the input where the code departs from it. The claim asks that a migration
  from \<^verbatim>\<open>currentVersion = null\<close> overwrites the five fields of every stored profile
  and persists the list. With one stored profile and \<^verbatim>\<open>current = None\<close> the routine
  passes the outer guard, logs, and raises \<^verbatim>\<open>TypeError\<close> at \<^verbatim>\<open>current < 2\<close>:
  nothing is overwritten and nothing is persisted.
\<close>

theorem migrate_from_null_raises:
  "on_settings_migrate 3 None (host_with [cam1]) =
     (Inl TypeError,
      (host_with [cam1])\<lparr>logged := [''Settings Migration Needed! Resetting to defaults!'']\<rparr>)
   \<and> multicam_profiles (snd (on_settings_migrate 3 None (host_with [cam1]))) = [cam1]"
  by (simp add: on_settings_migrate_def outer_guard_def py_lt_def host_with_def)

text \<open>
  Claim C7: when \<^verbatim>\<open>currentVersion\<close> is already the target version 3, the migration
  returns normally and leaves the whole host state as it was, for every stored list;
  running it a second time from version 3 again gives the state before the first run.
\<close>

theorem migrate_at_target_is_noop:
  "on_settings_migrate target (Some 3) s = (Inr (), s)
   \<and> (case on_settings_migrate target (Some 3) s of
         (r, s1) \<Rightarrow> on_settings_migrate target' (Some 3) s1) = (Inr (), s)"
  by (simp add: on_settings_migrate_def outer_guard_def get_settings_version_def)

text \<open>
  Claim C10: whenever the outer version guard triggers and the routine returns normally,
  the list persisted under \<^verbatim>\<open>multicam_profiles\<close> is the input list with its profiles
  mutated (all five fields when \<^verbatim>\<open>current < 2\<close>, \<^verbatim>\<open>streamRatio\<close> alone otherwise),
  never the defaults: the branch condition compares \<^verbatim>\<open>get_settings_version()\<close>, the
  constant 3, with the literal 3.
\<close>

theorem migration_persists_mutated_list:
  assumes "outer_guard current"
    and "on_settings_migrate target current s = (Inr (), s')"
  shows "get_settings_version = 3
    \<and> (\<exists>c. current = Some c \<and> c < 3
        \<and> length (multicam_profiles s') = length (multicam_profiles s)
        \<and> (\<forall>i < length (multicam_profiles s).
              multicam_profiles s' ! i =
                (if c < 2
                 then (multicam_profiles s ! i)
                        (''snapshot'' \<mapsto> webcam_snapshot (legacy s),
                         ''flipH'' \<mapsto> webcam_flipH (legacy s),
                         ''flipV'' \<mapsto> webcam_flipV (legacy s),
                         ''rotate90'' \<mapsto> webcam_rotate90 (legacy s),
                         ''streamRatio'' \<mapsto> webcam_streamRatio (legacy s))
                 else (multicam_profiles s ! i)
                        (''streamRatio'' \<mapsto> webcam_streamRatio (legacy s)))))"
proof (cases current)
  case None
  with assms(2) show ?thesis by (simp add: on_settings_migrate_None)
next
  case (Some c)
  with assms(1) have c: "c < 3"
    by (simp add: outer_guard_def get_settings_version_def)
  from assms(2) Some
  have s': "s' = s\<lparr>logged := logged s @ [''Settings Migration Needed! Resetting to defaults!''],
                   multicam_profiles :=
                     migrate_to_3 (legacy s)
                       (if c < 2 then migrate_to_2 (legacy s) (multicam_profiles s)
                        else multicam_profiles s)\<rparr>"
    by (simp add: on_settings_migrate_stale [OF c])
  show ?thesis using Some c
    by (simp add: s' get_settings_version_def migrate_to_3_length migrate_to_2_length
        migrate_to_3_nth migrate_to_2_nth)
qed

theorem migration_persists_mutated_list_witness:
  "outer_guard (Some 1)
   \<and> fst (on_settings_migrate 3 (Some 1) (host_with [cam1])) = Inr ()
   \<and> map (\<lambda>p. (p ''name'', p ''URL'', p ''snapshot'', p ''flipH'', p ''flipV'', p ''rotate90'',
                p ''streamRatio''))
        (multicam_profiles (snd (on_settings_migrate 3 (Some 1) (host_with [cam1]))))
      = [(Some (PStr ''Cam1''), Some (PStr ''http://x/stream''), Some (PStr ''http://host/snap''),
          Some (PBool True), Some (PBool False), Some (PBool False), Some (PStr ''16:9''))]"
proof -
  define s' where "s' = snd (on_settings_migrate 3 (Some 1) (host_with [cam1]))"
  have g: "outer_guard (Some 1)"
    by (simp add: outer_guard_def get_settings_version_def)
  have r: "on_settings_migrate 3 (Some 1) (host_with [cam1]) = (Inr (), s')"
    by (simp add: s'_def on_settings_migrate_stale)
  from migration_persists_mutated_list [OF g r]
  have len: "length (multicam_profiles s') = 1"
    and nth: "multicam_profiles s' ! 0 =
        cam1(''snapshot'' \<mapsto> PStr ''http://host/snap'', ''flipH'' \<mapsto> PBool True,
             ''flipV'' \<mapsto> PBool False, ''rotate90'' \<mapsto> PBool False,
             ''streamRatio'' \<mapsto> PStr ''16:9'')"
    by (simp_all add: host_with_def legacy0_def)
  from len obtain p where p: "multicam_profiles s' = [p]"
    by (cases "multicam_profiles s'") simp_all
  with nth have "p = cam1(''snapshot'' \<mapsto> PStr ''http://host/snap'', ''flipH'' \<mapsto> PBool True,
             ''flipV'' \<mapsto> PBool False, ''rotate90'' \<mapsto> PBool False,
             ''streamRatio'' \<mapsto> PStr ''16:9'')" by simp
  with p g r show ?thesis
    by (simp add: s'_def [symmetric] cam1_def)
qed

section \<open>Properties of the descriptor translator\<close>

text \<open>
  On the empty stored list the translator returns the empty list. On any other list the
  first element handed to \<^verbatim>\<open>profile_to_webcam\<close> is a tuple, and the call raises
  before a constructor of the host is reached: the result is the same for every host.
\<close>

lemma get_webcam_configurations_empty:
  "multicam_profiles s = [] \<Longrightarrow> get_webcam_configurations schema self s = Inr []"
  by (simp add: get_webcam_configurations_def enumerate_py_def)

lemma get_webcam_configurations_nonempty:
  "multicam_profiles s \<noteq> [] \<Longrightarrow>
   get_webcam_configurations schema self s = Inl AttributeError"
  by (cases "multicam_profiles s")
     (simp_all add: get_webcam_configurations_def enumerate_py_def)

text \<open>
  Claim C2, at the input where the code departs from it. The claim asks that the stored
  list of the one profile
  \<^verbatim>\<open>{name: "Cam1", URL: "http://x/stream", snapshot: "http://x/snap.jpg"}\<close> is translated
  to exactly one descriptor, with identifier \<^verbatim>\<open>"multicam/Cam1"\<close>. On that list
  \<^verbatim>\<open>get_webcam_configurations\<close> raises \<^verbatim>\<open>AttributeError\<close>, whatever the host's
  constructors do: there is no list of identifiers.
\<close>

theorem translator_end_to_end_raises:
  "map_sum id (map name) (get_webcam_configurations schema init (host_with [cam1]))
     = Inl AttributeError
   \<and> map_sum id (map name) (get_webcam_configurations schema init (host_with [cam1]))
     \<noteq> Inr [''multicam/Cam1'']"
  by (simp add: get_webcam_configurations_def enumerate_py_def host_with_def)

text \<open>
  Claim C3, at an input where the code departs from it. The claim asks that translating
  a stored list never raises. For the stored list of the one well-formed profile
  \<^verbatim>\<open>{name: "Cam1", URL: "http://x/stream", snapshot: "http://x/snap.jpg"}\<close>,
  \<^verbatim>\<open>get_webcam_configurations\<close> raises \<^verbatim>\<open>AttributeError\<close>.
\<close>

theorem translator_raises_on_stored_profile:
  "get_webcam_configurations schema init (host_with [cam1]) = Inl AttributeError"
  by (simp add: get_webcam_configurations_def enumerate_py_def host_with_def)

text \<open>
  Claim C4, at an input where the code departs from it. The claim asks that
  \<^verbatim>\<open>canSnapshot\<close> is true for a profile with a snapshot URL and false for one whose
  snapshot is the empty string. With two such profiles stored, in that order,
  \<^verbatim>\<open>get_webcam_configurations\<close> raises \<^verbatim>\<open>AttributeError\<close> at the first of them: no
  descriptor is derived, so neither profile gets a \<^verbatim>\<open>canSnapshot\<close> value.
\<close>

theorem canSnapshot_never_derived:
  "map_sum id (map canSnapshot)
     (get_webcam_configurations schema init (host_with [cam1, cam_empty_snapshot]))
     = Inl AttributeError
   \<and> map_sum id (map canSnapshot)
       (get_webcam_configurations schema init (host_with [cam1, cam_empty_snapshot]))
     \<noteq> Inr [True, False]"
  by (simp add: get_webcam_configurations_def enumerate_py_def host_with_def)

section \<open>Properties of the snapshot proxy\<close>

text \<open>Every call ends at line 129, before the name or the stored list is looked at.\<close>

lemma take_webcam_snapshot_raises:
  "take_webcam_snapshot host_attrs fetch self nm s = (Inl TypeError, s)"
  by (simp add: take_webcam_snapshot_def)

text \<open>
  Claim C5, at an input where the code departs from it. The claim asks that a name
  matching no descriptor fails with \<^verbatim>\<open>WebcamNotAbleToTakeSnapshotException\<close>. With
  \<^verbatim>\<open>Cam1\<close> stored and \<^verbatim>\<open>"multicam/Garage"\<close> requested, the call raises
  \<^verbatim>\<open>TypeError\<close>; the host state, and with it the list of HTTP requests, is unchanged.
\<close>

theorem snapshot_unknown_name_raises_TypeError:
  "take_webcam_snapshot injected_attrs one_chunk init ''multicam/Garage'' (host_with [cam1])
     = (Inl TypeError, host_with [cam1])
   \<and> TypeError \<noteq> WebcamNotAbleToTakeSnapshotException"
  by (simp add: take_webcam_snapshot_def)

text \<open>
  Claim C6, at an input where the code departs from it. The claim asks that a matched
  descriptor whose snapshot URL is the placeholder \<^verbatim>\<open>"http://"\<close> fails with
  \<^verbatim>\<open>WebcamNotAbleToTakeSnapshotException\<close>. With such a profile stored under the name
  \<^verbatim>\<open>Cam1\<close> and \<^verbatim>\<open>"multicam/Cam1"\<close> requested, the call raises \<^verbatim>\<open>TypeError\<close>; no
  HTTP request is issued.
\<close>

theorem snapshot_placeholder_raises_TypeError:
  "take_webcam_snapshot injected_attrs one_chunk init ''multicam/Cam1'' (host_with [cam_placeholder])
     = (Inl TypeError, host_with [cam_placeholder])
   \<and> TypeError \<noteq> WebcamNotAbleToTakeSnapshotException"
  by (simp add: take_webcam_snapshot_def)

section \<open>Properties of the registration and of the defaults\<close>

lemma plugin_load_raises:
  "''get_webcam_profiles'' \<notin> set host_attrs \<Longrightarrow>
   plugin_load host_attrs g = (Inl AttributeError, g\<lparr>plugin_implementation := Some init\<rparr>)"
  by (simp add: plugin_load_def bound_method_def has_attr_def class_attrs_def)

text \<open>
  Claim C8, at the input where the code departs from it. The claim asks that
  \<^verbatim>\<open>__plugin_load__\<close> succeeds and leaves an instance, a helper table and a hook table.
  The class defines no \<^verbatim>\<open>get_webcam_profiles\<close>; on a host that does not provide one,
  the call raises \<^verbatim>\<open>AttributeError\<close> after the instance is created, and neither table
  is assigned.
\<close>

theorem plugin_load_raises_AttributeError:
  "plugin_load injected_attrs unloaded
     = (Inl AttributeError,
        \<lparr>plugin_implementation = Some init, plugin_helpers = None, plugin_hooks = None\<rparr>)"
  by (simp add: plugin_load_def bound_method_def has_attr_def class_attrs_def
      injected_attrs_def unloaded_def)

text \<open>
  Claim C9 as stated fails: the button-enabled entry of the default profile is the
  string \<^verbatim>\<open>'true'\<close>, which is not the boolean \<^verbatim>\<open>True\<close>.
\<close>

theorem defaults_button_enabled_counterexample:
  "map_option (map (\<lambda>p. p ''isButtonEnabled'')) (get_settings_defaults legacy0 ''multicam_profiles'')
     = Some [Some (PStr ''true'')]
   \<and> PStr ''true'' \<noteq> PBool True"
  by (simp add: get_settings_defaults_def default_profile_def)

text \<open>
  Claim C9, amended: the default settings hold, under their single key
  \<^verbatim>\<open>multicam_profiles\<close>, exactly one profile; its name is \<^verbatim>\<open>"Default"\<close>, its
  \<^verbatim>\<open>URL\<close>, \<^verbatim>\<open>snapshot\<close>, \<^verbatim>\<open>streamRatio\<close>, \<^verbatim>\<open>flipH\<close>, \<^verbatim>\<open>flipV\<close> and
  \<^verbatim>\<open>rotate90\<close> are the host's legacy single-camera values, its \<^verbatim>\<open>isButtonEnabled\<close>
  is the string \<^verbatim>\<open>"true"\<close>, and it has no other key.
\<close>

theorem get_settings_defaults_one_profile:
  "\<exists>p. get_settings_defaults w = [''multicam_profiles'' \<mapsto> [p]]
     \<and> dom p = {''name'', ''URL'', ''snapshot'', ''streamRatio'', ''flipH'', ''flipV'',
                ''rotate90'', ''isButtonEnabled''}
     \<and> p ''name'' = Some (PStr ''Default'')
     \<and> p ''URL'' = Some (webcam_stream w)
     \<and> p ''snapshot'' = Some (webcam_snapshot w)
     \<and> p ''streamRatio'' = Some (webcam_streamRatio w)
     \<and> p ''flipH'' = Some (webcam_flipH w)
     \<and> p ''flipV'' = Some (webcam_flipV w)
     \<and> p ''rotate90'' = Some (webcam_rotate90 w)
     \<and> p ''isButtonEnabled'' = Some (PStr ''true'')"
proof -
  let ?p = "default_profile w"
  have "get_settings_defaults w = [''multicam_profiles'' \<mapsto> [?p]]"
    by (simp add: get_settings_defaults_def)
  moreover have "dom ?p = {''name'', ''URL'', ''snapshot'', ''streamRatio'', ''flipH'', ''flipV'',
                ''rotate90'', ''isButtonEnabled''}"
    unfolding default_profile_def by (simp only: dom_fun_upd dom_empty option.simps) auto
  moreover have "?p ''name'' = Some (PStr ''Default'')" "?p ''URL'' = Some (webcam_stream w)"
    "?p ''snapshot'' = Some (webcam_snapshot w)" "?p ''streamRatio'' = Some (webcam_streamRatio w)"
    "?p ''flipH'' = Some (webcam_flipH w)" "?p ''flipV'' = Some (webcam_flipV w)"
    "?p ''rotate90'' = Some (webcam_rotate90 w)" "?p ''isButtonEnabled'' = Some (PStr ''true'')"
    by (simp_all add: default_profile_def)
  ultimately show ?thesis by blast
qed

end
